theory Spec2Isabelle
  imports Complex_Main
begin

section \<open>The competition state of minotaur-cpp (code/compstate/compstate.cpp)\<close>

text \<open>
  The development follows \<^verbatim>\<open>compstate.cpp\<close>: the static scoring function
  \<^verbatim>\<open>acquisition_r\<close>, and the class \<^verbatim>\<open>CompetitionState\<close> with its boxes,
  freshness flags, tracking flags, path and the two procedure slots.

  Numbers. \<^verbatim>\<open>cv::Rect2d\<close> and the calibration parameters are C++ \<^verbatim>\<open>double\<close>s. The
  score is modelled twice. In \<open>acquisition_r\<close> a \<^verbatim>\<open>double\<close> is the real number it
  denotes and \<open>*\<close>, \<open>/\<close>, \<open>-\<close> are the exact operations, the literal \<^verbatim>\<open>0.99\<close>
  being \<open>99/100\<close>: this model covers finite values and leaves rounding, infinities and
  NaN out; the class and the statements about the two guards use it. In
  \<open>acquisition_r_binary64\<close> the same source text is read over IEEE 754 binary64
  values with rounded operations, signed zeros, infinities and NaN: the statement about the
  value of the score is made there.
\<close>

subsection \<open>Rectangles\<close>

text \<open>
  \<^verbatim>\<open>cv::Rect2d\<close> has the fields \<^verbatim>\<open>x, y, width, height\<close>. The fields carry the
  prefix \<open>rect_\<close> here, so that \<open>x\<close> and \<open>y\<close> stay usable as variables.
  \<^verbatim>\<open>cv::Rect2d()\<close> is the rectangle of four zeros.
\<close>

record rect2d =
  rect_x :: real
  rect_y :: real
  rect_width :: real
  rect_height :: real

definition Rect2d_default :: rect2d where
  "Rect2d_default = \<lparr>rect_x = 0, rect_y = 0, rect_width = 0, rect_height = 0\<rparr>"

subsection \<open>The acquisition score\<close>

text \<open>
  \<^verbatim>\<open>
  static double acquisition_r(const cv::Rect2d &rect, double calibrated_area) {
      double area = rect.width * rect.height;
      if (!area) { return 1000; }
      double t = rect.width > rect.height
                 ? rect.width / rect.height
                 : rect.height / rect.width;
      if (t <= 0.99) { return 1000; }
      return fabs(area - calibrated_area) / (area > calibrated_area ? area : calibrated_area) * t;
  }
  \<close>
  The local \<^verbatim>\<open>t\<close> is the function \<open>side_ratio\<close>, the local \<^verbatim>\<open>area\<close> is
  \<open>rect_area\<close>.
\<close>

definition rect_area :: "rect2d \<Rightarrow> real" where
  "rect_area rect = rect_width rect * rect_height rect"

definition side_ratio :: "rect2d \<Rightarrow> real" where
  "side_ratio rect =
     (if rect_width rect > rect_height rect
      then rect_width rect / rect_height rect
      else rect_height rect / rect_width rect)"

definition acquisition_r :: "rect2d \<Rightarrow> real \<Rightarrow> real" where
  "acquisition_r rect calibrated_area =
     (let area = rect_area rect in
      if area = 0 then 1000
      else let t = side_ratio rect in
        if t \<le> 0.99 then 1000
        else \<bar>area - calibrated_area\<bar>
               / (if area > calibrated_area then area else calibrated_area) * t)"

subsection \<open>Binary64 arithmetic\<close>

text \<open>
  The value of the score depends on how the products and quotients are rounded. For the
  statements about that value the \<^verbatim>\<open>double\<close>s are IEEE 754 binary64 numbers, as on a
  target that evaluates \<^verbatim>\<open>double\<close> expressions in binary64, one operation at a time.

  A value is a sign and a magnitude, an infinity with its sign, or NaN. The sign \<open>True\<close>
  is the negative one: \<open>Finite True 0\<close> is \<^verbatim>\<open>-0.0\<close>. The theorems below hold for every
  value of this type; the binary64 numbers are those that \<open>is_binary64\<close> accepts.
\<close>

datatype double = Finite bool real | Infinity bool | NaN

definition pow2 :: "int \<Rightarrow> real" where
  "pow2 e = (if 0 \<le> e then 2 ^ nat e else 1 / 2 ^ nat (- e))"

text \<open>
  The exponent of the binade of a magnitude \<open>m\<close>: the largest \<open>e\<close> from \<open>-1022\<close> to
  \<open>k - 1022\<close> with \<open>2 ^ e \<le> m\<close>, and \<open>-1022\<close> for the subnormal magnitudes. With
  \<open>k = 2045\<close> the search starts at the largest exponent, 1023.
\<close>

fun expo_from :: "nat \<Rightarrow> real \<Rightarrow> int" where
  "expo_from 0 m = - 1022"
| "expo_from (Suc k) m =
     (if pow2 (int (Suc k) - 1022) \<le> m then int (Suc k) - 1022 else expo_from k m)"

definition expo :: "real \<Rightarrow> int" where
  "expo m = expo_from 2045 m"

text \<open>
  Rounding to nearest, ties to even: a magnitude is rounded to a multiple of the spacing
  \<open>2 ^ (e - 52)\<close> of its binade (53 significant bits; \<open>2 ^ (- 1074)\<close> for the
  subnormals). A rounded magnitude of \<open>2 ^ 1024\<close> or more is an overflow and gives the
  infinity of the sign.
\<close>

definition round_half_even :: "real \<Rightarrow> int" where
  "round_half_even y =
     (let n = \<lfloor>y\<rfloor>; f = y - of_int n in
      if f < 1 / 2 then n
      else if 1 / 2 < f then n + 1
      else if even n then n else n + 1)"

definition round_mag :: "real \<Rightarrow> real" where
  "round_mag m = (let q = pow2 (expo m - 52) in of_int (round_half_even (m / q)) * q)"

definition to_double :: "bool \<Rightarrow> real \<Rightarrow> double" where
  "to_double s m = (let r = round_mag m in if pow2 1024 \<le> r then Infinity s else Finite s r)"

definition is_binary64 :: "double \<Rightarrow> bool" where
  "is_binary64 d =
     (case d of Finite s m \<Rightarrow> 0 \<le> m \<and> to_double s m = Finite s m | _ \<Rightarrow> True)"

fun dval :: "bool \<Rightarrow> real \<Rightarrow> real" where
  "dval s m = (if s then - m else m)"

text \<open>
  The operations the function uses: \<^verbatim>\<open>*\<close>, \<^verbatim>\<open>/\<close>, \<^verbatim>\<open>-\<close>, \<^verbatim>\<open>fabs\<close>, \<^verbatim>\<open><\<close>
  (\<^verbatim>\<open>a > b\<close> is \<open>dless b a\<close>), \<^verbatim>\<open><=\<close> and the test \<^verbatim>\<open>!a\<close>, which is \<^verbatim>\<open>a == 0\<close>.
  The sign of a product or quotient is the exclusive or of the signs; zero times infinity,
  zero over zero, infinity over infinity and the difference of equal infinities are NaN;
  an exact zero difference is \<^verbatim>\<open>+0.0\<close> unless it is \<^verbatim>\<open>-0.0 - +0.0\<close>; every comparison
  with NaN is false, and NaN is not zero.
\<close>

fun dmul :: "double \<Rightarrow> double \<Rightarrow> double" where
  "dmul (Finite s m) (Finite s' m') = to_double (s \<noteq> s') (m * m')"
| "dmul (Finite s m) (Infinity s') = (if m = 0 then NaN else Infinity (s \<noteq> s'))"
| "dmul (Infinity s) (Finite s' m') = (if m' = 0 then NaN else Infinity (s \<noteq> s'))"
| "dmul (Infinity s) (Infinity s') = Infinity (s \<noteq> s')"
| "dmul NaN y = NaN"
| "dmul x NaN = NaN"

fun ddiv :: "double \<Rightarrow> double \<Rightarrow> double" where
  "ddiv (Finite s m) (Finite s' m') =
     (if m' = 0 then (if m = 0 then NaN else Infinity (s \<noteq> s'))
      else to_double (s \<noteq> s') (m / m'))"
| "ddiv (Finite s m) (Infinity s') = Finite (s \<noteq> s') 0"
| "ddiv (Infinity s) (Finite s' m') = Infinity (s \<noteq> s')"
| "ddiv (Infinity s) (Infinity s') = NaN"
| "ddiv NaN y = NaN"
| "ddiv x NaN = NaN"

fun dsub :: "double \<Rightarrow> double \<Rightarrow> double" where
  "dsub (Finite s m) (Finite s' m') =
     (let r = dval s m - dval s' m' in
      if r = 0 then Finite (s \<and> \<not> s') 0 else to_double (r < 0) \<bar>r\<bar>)"
| "dsub (Finite s m) (Infinity s') = Infinity (\<not> s')"
| "dsub (Infinity s) (Finite s' m') = Infinity s"
| "dsub (Infinity s) (Infinity s') = (if s = s' then NaN else Infinity s)"
| "dsub NaN y = NaN"
| "dsub x NaN = NaN"

fun fabs :: "double \<Rightarrow> double" where
  "fabs (Finite s m) = Finite False m"
| "fabs (Infinity s) = Infinity False"
| "fabs NaN = NaN"

fun dless :: "double \<Rightarrow> double \<Rightarrow> bool" where
  "dless (Finite s m) (Finite s' m') = (dval s m < dval s' m')"
| "dless (Finite s m) (Infinity s') = (\<not> s')"
| "dless (Infinity s) (Finite s' m') = s"
| "dless (Infinity s) (Infinity s') = (s \<and> \<not> s')"
| "dless NaN y = False"
| "dless x NaN = False"

fun dle :: "double \<Rightarrow> double \<Rightarrow> bool" where
  "dle (Finite s m) (Finite s' m') = (dval s m \<le> dval s' m')"
| "dle (Finite s m) (Infinity s') = (\<not> s')"
| "dle (Infinity s) (Finite s' m') = s"
| "dle (Infinity s) (Infinity s') = (s \<or> \<not> s')"
| "dle NaN y = False"
| "dle x NaN = False"

fun is_zero :: "double \<Rightarrow> bool" where
  "is_zero (Finite s m) = (m = 0)"
| "is_zero (Infinity s) = False"
| "is_zero NaN = False"

text \<open>
  A decimal literal of the program text denotes the binary64 number nearest to it;
  \<^verbatim>\<open>sqrt\<close> is the correctly rounded square root of the C library (it is not called by
  the program: the statement about the square of side \<^verbatim>\<open>sqrt(calibrated_area)\<close> needs it).
\<close>

definition double_literal :: "real \<Rightarrow> double" where
  "double_literal r = to_double (r < 0) \<bar>r\<bar>"

fun dsqrt :: "double \<Rightarrow> double" where
  "dsqrt (Finite s m) =
     (if m = 0 then Finite s 0 else if s then NaN else to_double False (sqrt m))"
| "dsqrt (Infinity s) = (if s then NaN else Infinity False)"
| "dsqrt NaN = NaN"

subsection \<open>The acquisition score in binary64\<close>

text \<open>
  The same source text, \<^verbatim>\<open>acquisition_r\<close>, with every operation the binary64 one. The
  returned \<^verbatim>\<open>1000\<close> is an integer literal converted to \<^verbatim>\<open>double\<close>.
\<close>

record rect2d_binary64 =
  b64_x :: double
  b64_y :: double
  b64_width :: double
  b64_height :: double

definition acquisition_r_binary64 :: "rect2d_binary64 \<Rightarrow> double \<Rightarrow> double" where
  "acquisition_r_binary64 rect calibrated_area =
     (let area = dmul (b64_width rect) (b64_height rect) in
      if is_zero area then double_literal 1000
      else let t = (if dless (b64_height rect) (b64_width rect)
                    then ddiv (b64_width rect) (b64_height rect)
                    else ddiv (b64_height rect) (b64_width rect)) in
        if dle t (double_literal (99 / 100)) then double_literal 1000
        else dmul (ddiv (fabs (dsub area calibrated_area))
                     (if dless calibrated_area area then area else calibrated_area)) t)"

subsection \<open>Collaborators of the class\<close>

text \<open>
  \<^verbatim>\<open>
  static QString center_text(const cv::Rect2d &rect, const char *label) {
      QString text;
      text.sprintf("%6s: (%6.1f , %6.1f )", label, rect.x + rect.width / 2, rect.y + rect.height / 2);
      return text;
  }
  \<close>
  The text of a label is kept as the three arguments of the \<^verbatim>\<open>sprintf\<close> call, which
  determine it; the rendering of the numbers to one decimal place is not modelled.
\<close>

datatype qstring = Sprintf_center string real real

definition center_text :: "rect2d \<Rightarrow> string \<Rightarrow> qstring" where
  "center_text rect label =
     Sprintf_center label (rect_x rect + rect_width rect / 2) (rect_y rect + rect_height rect / 2)"

text \<open>
  The parameter manager behind the global \<^verbatim>\<open>g_pm\<close>: the three values the class reads.
  The model passes it as an argument.
\<close>

record param_manager =
  robot_calib_area :: real
  object_calib_area :: real
  area_acq_r_sigma :: real

text \<open>
  The wall array is opaque: the class only stores the shared pointer to it. A path is the
  vector of the points given to \<^verbatim>\<open>emplace_back(x, y)\<close>.
\<close>

typedecl wall_arr

type_synonym path2d = "(real \<times> real) list"

text \<open>
  Modelled from the spec: the classes \<^verbatim>\<open>Procedure\<close> and \<^verbatim>\<open>ObjectProcedure\<close>
  (\<^verbatim>\<open>procedure.h\<close>, \<^verbatim>\<open>objectprocedure.h\<close> are not among the sources). The spec
  says that a procedure is constructed bound to the current path and a motion controller,
  is started, and is later signalled to stop. The model keeps the path it was built from
  and whether it has been started and not stopped; the controller is left out.
\<close>

record procedure =
  proc_path :: path2d
  proc_running :: bool

definition Procedure_new :: "path2d \<Rightarrow> procedure" where
  "Procedure_new p = \<lparr>proc_path = p, proc_running = False\<rparr>"

definition procedure_start :: "procedure \<Rightarrow> procedure" where
  "procedure_start p = p\<lparr>proc_running := True\<rparr>"

definition procedure_stop :: "procedure \<Rightarrow> procedure" where
  "procedure_stop p = p\<lparr>proc_running := False\<rparr>"

subsection \<open>The state of the class\<close>

text \<open>
  The members of \<^verbatim>\<open>CompetitionState\<close> and of its \<^verbatim>\<open>Impl\<close>. A pointer that may be
  null is an option: the two label handles, the shared pointer to the walls and the two
  \<^verbatim>\<open>unique_ptr\<close> procedure slots. \<^verbatim>\<open>m_parent\<close> is only read by the constructor.
\<close>

record competition_state =
  box_robot :: rect2d
  box_object :: rect2d
  box_target :: rect2d
  m_tracking_robot :: bool
  m_tracking_object :: bool
  m_acquire_walls :: bool
  m_object_type :: int
  m_robot_box_fresh :: bool
  m_object_box_fresh :: bool
  m_robot_loc_label :: "qstring option"
  m_object_loc_label :: "qstring option"
  m_walls :: "wall_arr option"
  m_path :: path2d
  m_procedure :: "procedure option"
  m_object_procedure :: "procedure option"

text \<open>
  Dereferencing a null label handle (an assertion failure in a debug build) and
  dereferencing an empty procedure slot are the two ways a member function can fail.
\<close>

datatype error = Label_null | Procedure_null

text \<open>
  The constructor. Its initialiser list sets the three flags to false and the object type
  to \<^verbatim>\<open>UNACQUIRED\<close>; the labels are created only when the status box of the parent can be
  locked. The value of \<^verbatim>\<open>UNACQUIRED\<close> and the initial values of the two freshness
  flags come from the header, which is not among the sources: they are arguments.
\<close>

definition CompetitionState :: "bool \<Rightarrow> int \<Rightarrow> bool \<Rightarrow> bool \<Rightarrow> competition_state" where
  "CompetitionState status_box_locked unacquired fresh_robot fresh_object =
     \<lparr>box_robot = Rect2d_default,
      box_object = Rect2d_default,
      box_target = Rect2d_default,
      m_tracking_robot = False,
      m_tracking_object = False,
      m_acquire_walls = False,
      m_object_type = unacquired,
      m_robot_box_fresh = fresh_robot,
      m_object_box_fresh = fresh_object,
      m_robot_loc_label =
        (if status_box_locked then Some (center_text Rect2d_default ''Robot'') else None),
      m_object_loc_label =
        (if status_box_locked then Some (center_text Rect2d_default ''Object'') else None),
      m_walls = None,
      m_path = [],
      m_procedure = None,
      m_object_procedure = None\<rparr>"

subsection \<open>The member functions\<close>

definition acquire_robot_box :: "rect2d \<Rightarrow> competition_state \<Rightarrow> error + competition_state" where
  "acquire_robot_box robot_box s =
     (case m_robot_loc_label s of
        None \<Rightarrow> Inl Label_null
      | Some _ \<Rightarrow>
          Inr (s\<lparr>m_robot_loc_label := Some (center_text robot_box ''Robot''),
                 box_robot := robot_box,
                 m_robot_box_fresh := True\<rparr>))"

definition acquire_object_box :: "rect2d \<Rightarrow> competition_state \<Rightarrow> error + competition_state" where
  "acquire_object_box object_box s =
     (case m_object_loc_label s of
        None \<Rightarrow> Inl Label_null
      | Some _ \<Rightarrow>
          Inr (s\<lparr>m_object_loc_label := Some (center_text object_box ''Object''),
                 box_object := object_box,
                 m_object_box_fresh := True\<rparr>))"

definition acquire_target_box :: "rect2d \<Rightarrow> competition_state \<Rightarrow> competition_state" where
  "acquire_target_box target_box s = s\<lparr>box_target := target_box\<rparr>"

definition acquire_walls :: "wall_arr option \<Rightarrow> competition_state \<Rightarrow> competition_state" where
  "acquire_walls walls s = s\<lparr>m_walls := walls\<rparr>"

definition is_tracking_robot :: "competition_state \<Rightarrow> bool" where
  "is_tracking_robot s = m_tracking_object s"

definition is_tracking_object :: "competition_state \<Rightarrow> bool" where
  "is_tracking_object s = m_tracking_object s"

definition object_type :: "competition_state \<Rightarrow> int" where
  "object_type s = m_object_type s"

definition set_tracking_robot :: "bool \<Rightarrow> competition_state \<Rightarrow> competition_state" where
  "set_tracking_robot tracking_robot s = s\<lparr>m_tracking_robot := tracking_robot\<rparr>"

definition set_tracking_object :: "bool \<Rightarrow> competition_state \<Rightarrow> competition_state" where
  "set_tracking_object tracking_object s = s\<lparr>m_tracking_object := tracking_object\<rparr>"

definition set_object_type :: "int \<Rightarrow> competition_state \<Rightarrow> competition_state" where
  "set_object_type ty s = s\<lparr>m_object_type := ty\<rparr>"

text \<open>
  \<^verbatim>\<open>get_robot_box\<close> and \<^verbatim>\<open>get_object_box\<close> update a flag and return the box: the
  result is the pair of the returned rectangle and the new state.
\<close>

definition get_robot_box :: "bool \<Rightarrow> competition_state \<Rightarrow> rect2d \<times> competition_state" where
  "get_robot_box consume s =
     (box_robot s, s\<lparr>m_robot_box_fresh := (m_robot_box_fresh s \<and> \<not> consume)\<rparr>)"

definition get_object_box :: "bool \<Rightarrow> competition_state \<Rightarrow> rect2d \<times> competition_state" where
  "get_object_box consume s =
     (box_object s, s\<lparr>m_object_box_fresh := (m_object_box_fresh s \<and> \<not> consume)\<rparr>)"

definition get_target_box :: "competition_state \<Rightarrow> rect2d" where
  "get_target_box s = box_target s"

definition is_robot_box_fresh :: "competition_state \<Rightarrow> bool" where
  "is_robot_box_fresh s = m_robot_box_fresh s"

definition is_object_box_fresh :: "competition_state \<Rightarrow> bool" where
  "is_object_box_fresh s = m_object_box_fresh s"

definition is_robot_box_valid :: "param_manager \<Rightarrow> competition_state \<Rightarrow> bool" where
  "is_robot_box_valid g_pm s =
     (acquisition_r (box_robot s) (robot_calib_area g_pm) < area_acq_r_sigma g_pm)"

definition is_object_box_valid :: "param_manager \<Rightarrow> competition_state \<Rightarrow> bool" where
  "is_object_box_valid g_pm s =
     (acquisition_r (box_object s) (object_calib_area g_pm) < area_acq_r_sigma g_pm)"

definition clear_path :: "competition_state \<Rightarrow> competition_state" where
  "clear_path s = s\<lparr>m_path := []\<rparr>"

definition append_path :: "real \<Rightarrow> real \<Rightarrow> competition_state \<Rightarrow> competition_state" where
  "append_path x y s = s\<lparr>m_path := m_path s @ [(x, y)]\<rparr>"

definition get_path :: "competition_state \<Rightarrow> path2d" where
  "get_path s = m_path s"

definition begin_traversal :: "competition_state \<Rightarrow> competition_state" where
  "begin_traversal s = s\<lparr>m_procedure := Some (procedure_start (Procedure_new (m_path s)))\<rparr>"

definition halt_traversal :: "competition_state \<Rightarrow> error + competition_state" where
  "halt_traversal s =
     (case m_procedure s of
        None \<Rightarrow> Inl Procedure_null
      | Some p \<Rightarrow> Inr (s\<lparr>m_procedure := Some (procedure_stop p)\<rparr>))"

definition begin_object_move :: "competition_state \<Rightarrow> competition_state" where
  "begin_object_move s =
     s\<lparr>m_object_procedure := Some (procedure_start (Procedure_new (m_path s)))\<rparr>"

definition halt_object_move :: "competition_state \<Rightarrow> error + competition_state" where
  "halt_object_move s =
     (case m_object_procedure s of
        None \<Rightarrow> Inl Procedure_null
      | Some p \<Rightarrow> Inr (s\<lparr>m_object_procedure := Some (procedure_stop p)\<rparr>))"

subsection \<open>Call sequences\<close>

text \<open>
  A call of a member function that can change the state, with its arguments. The
  \<^verbatim>\<open>const\<close> member functions and \<^verbatim>\<open>get_target_box\<close> change nothing and are not
  listed. A sequence of calls stops at the first failing call.
\<close>

datatype call =
    Acquire_robot_box rect2d
  | Acquire_object_box rect2d
  | Acquire_target_box rect2d
  | Acquire_walls "wall_arr option"
  | Set_tracking_robot bool
  | Set_tracking_object bool
  | Set_object_type int
  | Get_robot_box bool
  | Get_object_box bool
  | Clear_path
  | Append_path real real
  | Begin_traversal
  | Halt_traversal
  | Begin_object_move
  | Halt_object_move

fun step :: "call \<Rightarrow> competition_state \<Rightarrow> error + competition_state" where
  "step (Acquire_robot_box r) s = acquire_robot_box r s"
| "step (Acquire_object_box r) s = acquire_object_box r s"
| "step (Acquire_target_box r) s = Inr (acquire_target_box r s)"
| "step (Acquire_walls w) s = Inr (acquire_walls w s)"
| "step (Set_tracking_robot b) s = Inr (set_tracking_robot b s)"
| "step (Set_tracking_object b) s = Inr (set_tracking_object b s)"
| "step (Set_object_type ty) s = Inr (set_object_type ty s)"
| "step (Get_robot_box consume) s = Inr (snd (get_robot_box consume s))"
| "step (Get_object_box consume) s = Inr (snd (get_object_box consume s))"
| "step Clear_path s = Inr (clear_path s)"
| "step (Append_path x y) s = Inr (append_path x y s)"
| "step Begin_traversal s = Inr (begin_traversal s)"
| "step Halt_traversal s = halt_traversal s"
| "step Begin_object_move s = Inr (begin_object_move s)"
| "step Halt_object_move s = halt_object_move s"

fun run :: "call list \<Rightarrow> competition_state \<Rightarrow> error + competition_state" where
  "run [] s = Inr s"
| "run (c # cs) s = (case step c s of Inl e \<Rightarrow> Inl e | Inr s' \<Rightarrow> run cs s')"

text \<open>
  The argument of the last \<^verbatim>\<open>set_tracking_object\<close> call of a sequence, and \<open>b\<close> when
  the sequence has none.
\<close>

fun last_set_tracking_object :: "bool \<Rightarrow> call list \<Rightarrow> bool" where
  "last_set_tracking_object b [] = b"
| "last_set_tracking_object b (Set_tracking_object b' # cs) = last_set_tracking_object b' cs"
| "last_set_tracking_object b (c # cs) = last_set_tracking_object b cs"

section \<open>Properties of the acquisition score\<close>

text \<open>
  Past the two guards the divisions of the function have nonzero divisors, so that the
  value HOL gives to a division by zero plays no part in the score.
\<close>

lemma side_ratio_sign:
  assumes "rect_area rect \<noteq> 0" and "0 < side_ratio rect"
  shows "0 < rect_area rect"
proof -
  from assms(1) have nz: "rect_width rect \<noteq> 0" "rect_height rect \<noteq> 0"
    by (auto simp: rect_area_def)
  have "0 < rect_width rect / rect_height rect"
    using assms(2) nz by (auto simp: side_ratio_def zero_less_divide_iff split: if_splits)
  then show ?thesis
    by (auto simp: rect_area_def zero_less_divide_iff zero_less_mult_iff)
qed

lemma acquisition_r_divisors_nonzero:
  assumes "rect_area rect \<noteq> 0" and "\<not> side_ratio rect \<le> 0.99"
  shows "rect_width rect \<noteq> 0 \<and> rect_height rect \<noteq> 0
         \<and> (if rect_area rect > ca then rect_area rect else ca) > 0"
proof -
  from assms(2) have "0 < side_ratio rect" by simp
  with assms(1) have "0 < rect_area rect" by (rule side_ratio_sign)
  then show ?thesis using assms(1) by (auto simp: rect_area_def)
qed

text \<open>
  C2. For every rectangle whose width times height is zero, and every calibrated area, the
  score is exactly 1000.
\<close>

theorem acquisition_r_zero_area:
  "rect_width rect * rect_height rect = 0 \<Longrightarrow> acquisition_r rect calibrated_area = 1000"
  by (simp add: acquisition_r_def rect_area_def)

theorem acquisition_r_zero_area_witness:
  "rect_width \<lparr>rect_x = 0, rect_y = 0, rect_width = 0, rect_height = 5\<rparr>
     * rect_height \<lparr>rect_x = 0, rect_y = 0, rect_width = 0, rect_height = 5\<rparr> = 0
   \<and> acquisition_r \<lparr>rect_x = 0, rect_y = 0, rect_width = 0, rect_height = 5\<rparr> 100 = 1000"
  using acquisition_r_zero_area
    [of "\<lparr>rect_x = 0, rect_y = 0, rect_width = 0, rect_height = 5\<rparr>" 100]
  by simp

text \<open>
  For a rectangle with positive sides the side ratio is the longer side over the shorter
  one, at least 1: the guard \<open>t \<le> 0.99\<close> never fires for it.
\<close>

lemma side_ratio_positive_sides:
  assumes "0 < rect_width rect" and "0 < rect_height rect"
  shows "1 \<le> side_ratio rect"
  using assms by (simp add: side_ratio_def)

text \<open>
  C1 as stated fails. The rectangle \<open>{0, 0, 20, 5}\<close> with calibrated area 100 does not
  get the score 1000: its side ratio is \<open>20 / 5 = 4\<close>, which is not at or below 0.99,
  so the second guard lets it through.
\<close>

theorem acquisition_r_20_by_5_counterexample:
  "acquisition_r \<lparr>rect_x = 0, rect_y = 0, rect_width = 20, rect_height = 5\<rparr> 100 \<noteq> 1000"
  by (simp add: acquisition_r_def rect_area_def side_ratio_def)

text \<open>
  C1, as amended. For the rectangle \<open>{0, 0, 20, 5}\<close> and calibrated area 100 the side
  ratio is 4, the squareness guard \<open>t \<le> 0.99\<close> does not fire, and the score is exactly
  0: the area equals the calibrated area.
\<close>

theorem acquisition_r_20_by_5:
  "side_ratio \<lparr>rect_x = 0, rect_y = 0, rect_width = 20, rect_height = 5\<rparr> = 4
   \<and> \<not> side_ratio \<lparr>rect_x = 0, rect_y = 0, rect_width = 20, rect_height = 5\<rparr> \<le> 0.99
   \<and> acquisition_r \<lparr>rect_x = 0, rect_y = 0, rect_width = 20, rect_height = 5\<rparr> 100 = 0"
  by (simp add: acquisition_r_def rect_area_def side_ratio_def)




section \<open>Properties of the score in binary64\<close>

subsection \<open>Evaluating the rounding\<close>

lemma pow2_powr: "pow2 e = 2 powr (of_int e)"
proof (cases "0 \<le> e")
  case True
  then show ?thesis
    by (simp add: pow2_def powr_realpow [symmetric])
next
  case False
  then have "(2::real) powr (of_int e) = 1 / 2 powr (of_int (- e))"
    by (simp add: powr_minus_divide)
  also have "\<dots> = 1 / 2 ^ nat (- e)"
    using False by (simp add: powr_realpow [symmetric])
  finally show ?thesis using False by (simp add: pow2_def)
qed

lemma pow2_pos: "0 < pow2 e"
  by (simp add: pow2_powr)

lemma pow2_mono: "a \<le> b \<Longrightarrow> pow2 a \<le> pow2 b"
  by (simp add: pow2_powr)

text \<open>
  The search finds the binade of a magnitude: \<open>e\<close> when \<open>2 ^ e \<le> m < 2 ^ (e + 1)\<close>
  in the normal range, \<open>-1022\<close> below it.
\<close>

lemma expo_from_binade:
  assumes "- 1022 \<le> e" and "e \<le> int k - 1022" and "pow2 e \<le> m" and "m < pow2 (e + 1)"
  shows "expo_from k m = e"
  using assms
proof (induction k)
  case 0
  then show ?case by simp
next
  case (Suc k)
  show ?case
  proof (cases "e = int (Suc k) - 1022")
    case True
    with Suc.prems show ?thesis by simp
  next
    case False
    with Suc.prems have le: "e + 1 \<le> int (Suc k) - 1022" by simp
    have "m < pow2 (int (Suc k) - 1022)"
      using Suc.prems(4) pow2_mono [OF le] by simp
    moreover have "expo_from k m = e"
      using Suc.IH Suc.prems le by simp
    ultimately show ?thesis by simp
  qed
qed

lemma expo_from_subnormal:
  assumes "m < pow2 (- 1022)"
  shows "expo_from k m = - 1022"
proof (induction k)
  case 0
  show ?case by simp
next
  case (Suc k)
  have "pow2 (- 1022) \<le> pow2 (int (Suc k) - 1022)"
    by (rule pow2_mono) simp
  with assms have "m < pow2 (int (Suc k) - 1022)" by simp
  with Suc.IH show ?case by simp
qed

lemma expo_binade:
  "- 1022 \<le> e \<Longrightarrow> e \<le> 1023 \<Longrightarrow> pow2 e \<le> m \<Longrightarrow> m < pow2 (e + 1) \<Longrightarrow> expo m = e"
  unfolding expo_def by (rule expo_from_binade) simp_all

lemma expo_subnormal: "m < pow2 (- 1022) \<Longrightarrow> expo m = - 1022"
  unfolding expo_def by (rule expo_from_subnormal)

text \<open>
  An integer within less than one half of \<open>y\<close> is the rounding of \<open>y\<close>; together
  with the binade this evaluates \<open>to_double\<close> at a concrete magnitude.
\<close>

lemma round_half_even_nearest:
  assumes "of_int n - 1 / 2 < y" and "y < of_int n + 1 / 2"
  shows "round_half_even y = n"
proof (cases "of_int n \<le> y")
  case True
  with assms have "\<lfloor>y\<rfloor> = n" by (simp add: floor_unique)
  with assms show ?thesis by (simp add: round_half_even_def)
next
  case False
  with assms have "\<lfloor>y\<rfloor> = n - 1" by (simp add: floor_unique)
  with assms False show ?thesis by (simp add: round_half_even_def)
qed

lemma round_half_even_of_int: "round_half_even (of_int n) = n"
  by (rule round_half_even_nearest) simp_all

lemma to_double_nearest:
  assumes "- 1022 \<le> e" and "e \<le> 1023"
    and "pow2 e \<le> m" and "m < pow2 (e + 1)"
    and "of_int n - 1 / 2 < m / pow2 (e - 52)" and "m / pow2 (e - 52) < of_int n + 1 / 2"
    and "of_int n * pow2 (e - 52) < pow2 1024"
  shows "to_double s m = Finite s (of_int n * pow2 (e - 52))"
proof -
  have "expo m = e" using assms(1-4) by (rule expo_binade)
  moreover have "round_half_even (m / pow2 (e - 52)) = n"
    using assms(5,6) by (rule round_half_even_nearest)
  ultimately have "round_mag m = of_int n * pow2 (e - 52)"
    by (simp add: round_mag_def)
  with assms(7) show ?thesis by (simp add: to_double_def)
qed

lemma to_double_zero: "to_double s 0 = Finite s 0"
proof -
  have "expo 0 = - 1022" by (rule expo_subnormal) (simp add: pow2_pos)
  then have "round_mag 0 = 0" by (simp add: round_mag_def round_half_even_def)
  then show ?thesis by (simp add: to_double_def not_le pow2_pos)
qed

subsection \<open>Literals and small values\<close>

lemma double_literal_2: "double_literal 2 = Finite False 2"
  unfolding double_literal_def
  using to_double_nearest [of 1 2 "2 ^ 52" False]
  by (simp add: pow2_def)

lemma double_literal_1000: "double_literal 1000 = Finite False 1000"
  unfolding double_literal_def
  using to_double_nearest [of 9 1000 "1000 * 2 ^ 43" False]
  by (simp add: pow2_def)

lemma double_literal_099: "double_literal (99 / 100) = Finite False (4458563631096791 / 2 ^ 52)"
  unfolding double_literal_def
  using to_double_nearest [of "- 1" "99 / 100" 8917127262193582 False]
  by (simp add: pow2_def)

lemma to_double_1: "to_double s 1 = Finite s 1"
  using to_double_nearest [of 0 1 "2 ^ 52" s]
  by (simp add: pow2_def)

lemma to_double_10: "to_double s 10 = Finite s 10"
  using to_double_nearest [of 3 10 "10 * 2 ^ 49" s] by (simp add: pow2_def)

lemma to_double_100: "to_double s 100 = Finite s 100"
  using to_double_nearest [of 6 100 "100 * 2 ^ 46" s] by (simp add: pow2_def)

lemma to_double_50: "to_double s 50 = Finite s 50"
  using to_double_nearest [of 5 50 "50 * 2 ^ 47" s] by (simp add: pow2_def)

lemma to_double_2: "to_double s 2 = Finite s 2"
  using to_double_nearest [of 1 2 "2 ^ 52" s] by (simp add: pow2_def)

lemma to_double_half: "to_double s (1 / 2) = Finite s (1 / 2)"
  using to_double_nearest [of "- 1" "1 / 2" "2 ^ 52" s] by (simp add: pow2_def)

lemma to_double_4: "to_double s 4 = Finite s 4"
  using to_double_nearest [of 2 4 "2 ^ 52" s] by (simp add: pow2_def)

lemma to_double_sign: "to_double s m = Finite s' m' \<Longrightarrow> s' = s"
  by (simp add: to_double_def Let_def split: if_splits)

subsection \<open>The square of side \<^verbatim>\<open>sqrt(2.0)\<close>\<close>

text \<open>
  The correctly rounded square root of 2 is \<open>6369051672525773 / 2 ^ 52\<close>. Its square
  rounds to \<open>2 + 2 ^ (- 51)\<close>, not to 2, and the score of this square against the
  calibrated area 2 is \<open>(2 ^ 52 - 1) / 2 ^ 104\<close>, about \<open>2.22e-16\<close>.
\<close>

lemma sqrt_2_bounds:
  "6369051672525773 - 1 / 2 < sqrt 2 * 2 ^ 52" "sqrt 2 * 2 ^ 52 < 6369051672525773 + 1 / 2"
proof -
  have "((6369051672525773 - 1 / 2) / 2 ^ 52)\<^sup>2 < (2::real)"
    by (simp add: power2_eq_square)
  then have "(6369051672525773 - 1 / 2) / 2 ^ 52 < sqrt 2"
    by (rule real_less_rsqrt)
  then show "6369051672525773 - 1 / 2 < sqrt 2 * 2 ^ 52"
    by (simp add: field_simps)
  have "(2::real) < ((6369051672525773 + 1 / 2) / 2 ^ 52)\<^sup>2"
    by (simp add: power2_eq_square)
  then have "sqrt 2 < (6369051672525773 + 1 / 2) / 2 ^ 52"
    by (intro real_less_lsqrt) simp_all
  then show "sqrt 2 * 2 ^ 52 < 6369051672525773 + 1 / 2"
    by (simp add: field_simps)
qed

lemma dsqrt_2: "dsqrt (Finite False 2) = Finite False (6369051672525773 / 2 ^ 52)"
proof -
  have "1 \<le> sqrt 2" "sqrt 2 < 2"
    by (simp_all add: real_less_lsqrt)
  with sqrt_2_bounds to_double_nearest [of 0 "sqrt 2" 6369051672525773 False]
  show ?thesis
    by (simp add: pow2_def)
qed

lemma sqrt2_square_area:
  "dmul (Finite False (6369051672525773 / 2 ^ 52)) (Finite False (6369051672525773 / 2 ^ 52))
     = Finite False (4503599627370497 / 2 ^ 51)"
  using to_double_nearest
    [of 1 "6369051672525773 / 2 ^ 52 * (6369051672525773 / 2 ^ 52)" 4503599627370497 False]
  by (simp add: pow2_def)

lemma sqrt2_square_ratio:
  "ddiv (Finite False (6369051672525773 / 2 ^ 52)) (Finite False (6369051672525773 / 2 ^ 52))
     = Finite False 1"
  by (simp add: to_double_1)

lemma sqrt2_square_difference:
  "dsub (Finite False (4503599627370497 / 2 ^ 51)) (Finite False 2) = Finite False (1 / 2 ^ 51)"
  using to_double_nearest [of "- 51" "1 / 2 ^ 51" "2 ^ 52" False]
  by (simp add: pow2_def)

lemma sqrt2_square_quotient:
  "ddiv (Finite False (1 / 2 ^ 51)) (Finite False (4503599627370497 / 2 ^ 51))
     = Finite False (4503599627370495 / 2 ^ 104)"
  using to_double_nearest
    [of "- 53" "1 / 2 ^ 51 / (4503599627370497 / 2 ^ 51)" 9007199254740990 False]
  by (simp add: pow2_def)

lemma sqrt2_square_product:
  "dmul (Finite False (4503599627370495 / 2 ^ 104)) (Finite False 1)
     = Finite False (4503599627370495 / 2 ^ 104)"
  using to_double_nearest [of "- 53" "4503599627370495 / 2 ^ 104" 9007199254740990 False]
  by (simp add: pow2_def)

lemma sqrt2_square_inputs:
  "is_binary64 (double_literal 2) \<and> is_binary64 (dsqrt (double_literal 2))"
  using to_double_nearest [of 0 "6369051672525773 / 2 ^ 52" 6369051672525773 False]
  by (simp add: is_binary64_def double_literal_2 dsqrt_2 to_double_2 pow2_def
      del: dsqrt.simps)

text \<open>
  C3 as stated fails. The square whose sides are \<^verbatim>\<open>sqrt(2.0)\<close> has nonzero area and
  passes the squareness check, and its score against the calibrated area \<^verbatim>\<open>2.0\<close> is
  not zero.
\<close>

theorem sqrt2_square_counterexample:
  "\<not> is_zero (dmul (dsqrt (double_literal 2)) (dsqrt (double_literal 2)))
   \<and> \<not> dle (ddiv (dsqrt (double_literal 2)) (dsqrt (double_literal 2)))
         (double_literal (99 / 100))
   \<and> acquisition_r_binary64
        \<lparr>b64_x = Finite False 0, b64_y = Finite False 0,
         b64_width = dsqrt (double_literal 2), b64_height = dsqrt (double_literal 2)\<rparr>
        (double_literal 2)
       = Finite False (4503599627370495 / 2 ^ 104)
   \<and> \<not> is_zero (acquisition_r_binary64
        \<lparr>b64_x = Finite False 0, b64_y = Finite False 0,
         b64_width = dsqrt (double_literal 2), b64_height = dsqrt (double_literal 2)\<rparr>
        (double_literal 2))"
proof -
  let ?w = "Finite False (6369051672525773 / 2 ^ 52)"
  let ?area = "Finite False (4503599627370497 / 2 ^ 51)"
  have nonzero: "\<not> is_zero ?area"
    by simp
  have guard: "\<not> dle (Finite False 1) (Finite False (4458563631096791 / 2 ^ 52))"
    by simp
  have same: "\<not> dless ?w ?w"
    by simp
  have larger: "dless (Finite False 2) ?area"
    by simp
  have result: "\<not> is_zero (Finite False (4503599627370495 / 2 ^ 104))"
    by simp
  show ?thesis
    unfolding acquisition_r_binary64_def Let_def
    by (simp only: rect2d_binary64.select_convs dsqrt_2 double_literal_2 double_literal_099
        sqrt2_square_area sqrt2_square_ratio sqrt2_square_difference
        sqrt2_square_quotient sqrt2_square_product fabs.simps
        nonzero guard same larger result if_True if_False simp_thms)
qed

subsection \<open>The value of the score\<close>

text \<open>
  The divisor \<^verbatim>\<open>area > calibrated_area ? area : calibrated_area\<close> is the larger of the
  two values when neither is NaN.
\<close>

lemma larger_of_two:
  assumes "a \<noteq> NaN" and "b \<noteq> NaN"
  shows "dle a (if dless b a then a else b) \<and> dle b (if dless b a then a else b)"
  using assms by (cases a; cases b) auto

lemma acquisition_r_binary64_past_guards:
  assumes "\<not> is_zero (dmul w h)"
    and "\<not> dle (if dless h w then ddiv w h else ddiv h w) (double_literal (99 / 100))"
  shows "acquisition_r_binary64 \<lparr>b64_x = x, b64_y = y, b64_width = w, b64_height = h\<rparr> ca
           = dmul (ddiv (fabs (dsub (dmul w h) ca))
                     (if dless ca (dmul w h) then dmul w h else ca))
               (if dless h w then ddiv w h else ddiv h w)"
proof (cases "dless h w")
  case True
  with assms show ?thesis
    by (simp add: acquisition_r_binary64_def Let_def)
next
  case False
  with assms show ?thesis
    by (simp add: acquisition_r_binary64_def Let_def)
qed

text \<open>
  A square whose computed area is finite, nonzero and equal to the calibrated area: the
  difference is \<^verbatim>\<open>+0.0\<close>, the side ratio is 1, and the score is \<^verbatim>\<open>+0.0\<close>.
\<close>

lemma acquisition_r_binary64_calibrated_square:
  assumes "w = h" and "dmul w h = Finite s m" and "m \<noteq> 0" and "ca = Finite s m"
  shows "acquisition_r_binary64 \<lparr>b64_x = x, b64_y = y, b64_width = w, b64_height = h\<rparr> ca
           = Finite False 0"
proof -
  from assms(1,2) obtain sw mw where w: "w = Finite sw mw"
    by (cases w) auto
  have h: "h = Finite sw mw"
    using assms(1) w by simp
  have "dmul (Finite sw mw) (Finite sw mw) = Finite s m"
    using assms(2) unfolding w h .
  then have "to_double False (mw * mw) = Finite s m"
    by simp
  then have s: "s = False"
    by (rule to_double_sign)
  have mw: "mw \<noteq> 0"
    using \<open>to_double False (mw * mw) = Finite s m\<close> assms(3)
    by (auto simp: to_double_zero)
  have area: "dmul w h = Finite False m"
    using assms(2) s by simp
  have t: "(if dless h w then ddiv w h else ddiv h w) = Finite False 1"
    unfolding w h using mw by (simp add: to_double_1)
  have guard: "\<not> dle (Finite False 1) (double_literal (99 / 100))"
    by (simp add: double_literal_099)
  have diff: "fabs (dsub (Finite False m) (Finite False m)) = Finite False 0"
    by simp
  have quot: "ddiv (Finite False 0) (Finite False m) = Finite False 0"
    using assms(3) by (simp add: to_double_zero)
  have prod: "dmul (Finite False 0) (Finite False 1) = Finite False 0"
    by (simp add: to_double_zero)
  have "\<not> is_zero (dmul w h)"
    using area assms(3) by simp
  moreover have "\<not> dle (if dless h w then ddiv w h else ddiv h w) (double_literal (99 / 100))"
    using t guard by simp
  ultimately have "acquisition_r_binary64
      \<lparr>b64_x = x, b64_y = y, b64_width = w, b64_height = h\<rparr> ca
    = dmul (ddiv (fabs (dsub (dmul w h) ca)) (if dless ca (dmul w h) then dmul w h else ca))
        (if dless h w then ddiv w h else ddiv h w)"
    by (rule acquisition_r_binary64_past_guards)
  also have "\<dots> = dmul (ddiv (fabs (dsub (Finite False m) (Finite False m))) (Finite False m))
        (Finite False 1)"
    unfolding area t using assms(4) s by simp
  also have "\<dots> = Finite False 0"
    unfolding diff quot prod ..
  finally show ?thesis .
qed

text \<open>
  C3, as amended. For every rectangle whose computed area \<^verbatim>\<open>width * height\<close> is not zero
  and whose side ratio \<^verbatim>\<open>t = width > height ? width / height : height / width\<close> is not
  \<^verbatim>\<open><= 0.99\<close>, the score is
  \<^verbatim>\<open>fabs(area - calibrated_area) / (area > calibrated_area ? area : calibrated_area) * t\<close>,
  every operation being the binary64 one. In particular, for a rectangle with
  \<^verbatim>\<open>width == height\<close> whose computed area is finite, nonzero and equal to
  \<^verbatim>\<open>calibrated_area\<close>, the score is exactly \<^verbatim>\<open>+0.0\<close>; this is the case of
  \<^verbatim>\<open>width == height == sqrt(calibrated_area)\<close> when the rounded root squares back to
  the calibrated area, as for the area 100.
\<close>

theorem acquisition_r_binary64_formula:
  "(\<not> is_zero (dmul w h)
      \<and> \<not> dle (if dless h w then ddiv w h else ddiv h w) (double_literal (99 / 100)) \<longrightarrow>
    acquisition_r_binary64 \<lparr>b64_x = x, b64_y = y, b64_width = w, b64_height = h\<rparr> ca
      = dmul (ddiv (fabs (dsub (dmul w h) ca))
                (if dless ca (dmul w h) then dmul w h else ca))
          (if dless h w then ddiv w h else ddiv h w))
   \<and> (w = h \<and> dmul w h = Finite s m \<and> m \<noteq> 0 \<and> ca = Finite s m \<longrightarrow>
        acquisition_r_binary64 \<lparr>b64_x = x, b64_y = y, b64_width = w, b64_height = h\<rparr> ca
          = Finite False 0)
   \<and> (w = dsqrt ca \<and> h = dsqrt ca \<and> dmul w h = ca \<and> ca = Finite s m \<and> m \<noteq> 0 \<longrightarrow>
        acquisition_r_binary64 \<lparr>b64_x = x, b64_y = y, b64_width = w, b64_height = h\<rparr> ca
          = Finite False 0)"
proof -
  have square: "acquisition_r_binary64
      \<lparr>b64_x = x, b64_y = y, b64_width = w, b64_height = h\<rparr> ca = Finite False 0"
    if "w = h" "dmul w h = Finite s m" "m \<noteq> 0" "ca = Finite s m"
    using that by (rule acquisition_r_binary64_calibrated_square)
  have root: "acquisition_r_binary64
      \<lparr>b64_x = x, b64_y = y, b64_width = w, b64_height = h\<rparr> ca = Finite False 0"
    if "w = dsqrt ca" "h = dsqrt ca" "dmul w h = ca" "ca = Finite s m" "m \<noteq> 0"
  proof (rule acquisition_r_binary64_calibrated_square)
    show "w = h" using that(1,2) by simp
    show "dmul w h = Finite s m" using that(3,4) by simp
    show "m \<noteq> 0" by (rule that(5))
    show "ca = Finite s m" by (rule that(4))
  qed
  show ?thesis
    using acquisition_r_binary64_past_guards [of w h x y ca] square root
    by blast
qed

theorem acquisition_r_binary64_formula_witness:
  "\<not> is_zero (dmul (Finite False 10) (Finite False 5))
   \<and> \<not> dle (if dless (Finite False 5) (Finite False 10)
             then ddiv (Finite False 10) (Finite False 5)
             else ddiv (Finite False 5) (Finite False 10)) (double_literal (99 / 100))
   \<and> acquisition_r_binary64
        \<lparr>b64_x = Finite False 0, b64_y = Finite False 0,
         b64_width = Finite False 10, b64_height = Finite False 5\<rparr> (Finite False 100)
       = Finite False 1
   \<and> dmul (Finite False 10) (Finite False 10) = Finite False 100
   \<and> acquisition_r_binary64
        \<lparr>b64_x = Finite False 0, b64_y = Finite False 0,
         b64_width = Finite False 10, b64_height = Finite False 10\<rparr> (Finite False 100)
       = Finite False 0
   \<and> dsqrt (Finite False 100) = Finite False 10
   \<and> dmul (dsqrt (Finite False 100)) (dsqrt (Finite False 100)) = Finite False 100
   \<and> acquisition_r_binary64
        \<lparr>b64_x = Finite False 0, b64_y = Finite False 0,
         b64_width = dsqrt (Finite False 100), b64_height = dsqrt (Finite False 100)\<rparr>
        (Finite False 100)
       = Finite False 0"
proof -
  have area: "dmul (Finite False 10) (Finite False 5) = Finite False 50"
    by (simp add: to_double_50)
  have t: "(if dless (Finite False 5) (Finite False 10)
            then ddiv (Finite False 10) (Finite False 5)
            else ddiv (Finite False 5) (Finite False 10)) = Finite False 2"
    by (simp add: to_double_2)
  have guard: "\<not> dle (Finite False 2) (double_literal (99 / 100))"
    by (simp add: double_literal_099)
  have diff: "fabs (dsub (Finite False 50) (Finite False 100)) = Finite False 50"
    by (simp add: to_double_50)
  have quot: "ddiv (Finite False 50) (Finite False 100) = Finite False (1 / 2)"
    by (simp add: to_double_half)
  have prod: "dmul (Finite False (1 / 2)) (Finite False 2) = Finite False 1"
    by (simp add: to_double_1)
  have smaller: "\<not> dless (Finite False 100) (Finite False 50)"
    by simp
  have first: "acquisition_r_binary64
        \<lparr>b64_x = Finite False 0, b64_y = Finite False 0,
         b64_width = Finite False 10, b64_height = Finite False 5\<rparr> (Finite False 100)
       = Finite False 1"
    using acquisition_r_binary64_formula
      [where w = "Finite False 10" and h = "Finite False 5" and ca = "Finite False 100"
        and x = "Finite False 0" and y = "Finite False 0", THEN conjunct1]
    unfolding area t
    using guard by (simp only: is_zero.simps smaller diff quot prod if_False simp_thms)
  have root: "dsqrt (Finite False 100) = Finite False 10"
    by (simp add: to_double_10)
  have square: "dmul (Finite False 10) (Finite False 10) = Finite False 100"
    by (simp add: to_double_100)
  have second: "acquisition_r_binary64
        \<lparr>b64_x = Finite False 0, b64_y = Finite False 0,
         b64_width = Finite False 10, b64_height = Finite False 10\<rparr> (Finite False 100)
       = Finite False 0"
    using acquisition_r_binary64_formula
      [where w = "Finite False 10" and h = "Finite False 10" and ca = "Finite False 100"
        and s = False and m = 100 and x = "Finite False 0" and y = "Finite False 0",
        THEN conjunct2, THEN conjunct1]
      square by simp
  have third: "acquisition_r_binary64
        \<lparr>b64_x = Finite False 0, b64_y = Finite False 0,
         b64_width = dsqrt (Finite False 100), b64_height = dsqrt (Finite False 100)\<rparr>
        (Finite False 100)
       = Finite False 0"
    using acquisition_r_binary64_formula
      [where w = "dsqrt (Finite False 100)" and h = "dsqrt (Finite False 100)"
        and ca = "Finite False 100" and s = False and m = 100
        and x = "Finite False 0" and y = "Finite False 0",
        THEN conjunct2, THEN conjunct2]
      square unfolding root by simp
  show ?thesis
    unfolding area t using guard first second third square root by simp
qed

subsection \<open>The guards in binary64\<close>

text \<open>
  The results of the exact model about the two guards, read in binary64: a zero computed
  area gives 1000, the rectangle \<open>{0, 0, 20, 5}\<close> scores \<^verbatim>\<open>+0.0\<close> against the area
  100, and a finite rectangle with exactly one negative side gives 1000.
\<close>

lemma round_half_even_nonneg: "0 \<le> y \<Longrightarrow> 0 \<le> round_half_even y"
  by (simp add: round_half_even_def Let_def)

lemma round_mag_nonneg: "0 \<le> m \<Longrightarrow> 0 \<le> round_mag m"
  using round_half_even_nonneg [of "m / pow2 (expo m - 52)"] pow2_pos [of "expo m - 52"]
  by (simp add: round_mag_def Let_def)

lemma to_double_negative_le:
  assumes "0 \<le> m" and "0 \<le> c"
  shows "dle (to_double True m) (Finite False c)"
  using assms round_mag_nonneg [of m] by (simp add: to_double_def Let_def)

lemma acquisition_r_binary64_zero_area:
  "is_zero (dmul w h) \<Longrightarrow>
     acquisition_r_binary64 \<lparr>b64_x = x, b64_y = y, b64_width = w, b64_height = h\<rparr> ca
       = Finite False 1000"
  by (simp add: acquisition_r_binary64_def double_literal_1000)

lemma acquisition_r_binary64_20_by_5:
  "acquisition_r_binary64
     \<lparr>b64_x = Finite False 0, b64_y = Finite False 0,
      b64_width = Finite False 20, b64_height = Finite False 5\<rparr> (Finite False 100)
   = Finite False 0"
  by (simp add: acquisition_r_binary64_def double_literal_099 to_double_100 to_double_4
      to_double_zero)

lemma acquisition_r_binary64_one_negative_side:
  assumes "0 < mw" and "0 \<le> mh" and "sw \<noteq> sh"
  shows "acquisition_r_binary64
           \<lparr>b64_x = x, b64_y = y, b64_width = Finite sw mw, b64_height = Finite sh mh\<rparr> ca
         = Finite False 1000"
    and "acquisition_r_binary64
           \<lparr>b64_x = x, b64_y = y, b64_width = Finite sh mh, b64_height = Finite sw mw\<rparr> ca
         = Finite False 1000"
proof -
  have lit: "double_literal (99 / 100) = Finite False (4458563631096791 / 2 ^ 52)"
    by (rule double_literal_099)
  have neg: "dle (to_double True m) (double_literal (99 / 100))" if "0 \<le> m" for m
    unfolding lit using that by (rule to_double_negative_le) simp
  have q: "0 \<le> mh / mw" "0 \<le> mw / mh"
    using assms by simp_all
  have sign: "(sw \<noteq> sh) = True" "(sh \<noteq> sw) = True"
    using assms(3) by auto
  show "acquisition_r_binary64
           \<lparr>b64_x = x, b64_y = y, b64_width = Finite sw mw, b64_height = Finite sh mh\<rparr> ca
         = Finite False 1000"
    using assms neg [OF q(1)] neg [OF q(2)]
    by (auto simp: acquisition_r_binary64_def double_literal_1000 Let_def sign to_double_zero)
  show "acquisition_r_binary64
           \<lparr>b64_x = x, b64_y = y, b64_width = Finite sh mh, b64_height = Finite sw mw\<rparr> ca
         = Finite False 1000"
    using assms neg [OF q(1)] neg [OF q(2)]
    by (auto simp: acquisition_r_binary64_def double_literal_1000 Let_def sign to_double_zero)
qed

section \<open>Properties of the competition state\<close>

lemmas box_defs =
  acquire_robot_box_def acquire_object_box_def acquire_target_box_def acquire_walls_def
  set_tracking_robot_def set_tracking_object_def set_object_type_def
  get_robot_box_def get_object_box_def clear_path_def append_path_def
  begin_traversal_def halt_traversal_def begin_object_move_def halt_object_move_def

subsection \<open>Freshness of the robot and object boxes\<close>

lemma acquire_robot_box_total:
  "m_robot_loc_label s \<noteq> None \<Longrightarrow> \<exists>s'. acquire_robot_box r s = Inr s'"
  by (auto simp: acquire_robot_box_def)

lemma acquire_object_box_total:
  "m_object_loc_label s \<noteq> None \<Longrightarrow> \<exists>s'. acquire_object_box r s = Inr s'"
  by (auto simp: acquire_object_box_def)

lemma acquire_robot_box_fresh:
  "acquire_robot_box r s = Inr s' \<Longrightarrow> is_robot_box_fresh s'"
  by (auto simp: acquire_robot_box_def is_robot_box_fresh_def split: option.splits)

lemma acquire_object_box_fresh:
  "acquire_object_box r s = Inr s' \<Longrightarrow> is_object_box_fresh s'"
  by (auto simp: acquire_object_box_def is_object_box_fresh_def split: option.splits)

lemma get_robot_box_fresh:
  "is_robot_box_fresh (snd (get_robot_box consume s)) = (is_robot_box_fresh s \<and> \<not> consume)"
  by (simp add: get_robot_box_def is_robot_box_fresh_def)

lemma get_object_box_fresh:
  "is_object_box_fresh (snd (get_object_box consume s)) = (is_object_box_fresh s \<and> \<not> consume)"
  by (simp add: get_object_box_def is_object_box_fresh_def)

lemma get_robot_box_repeated:
  "is_robot_box_fresh (((\<lambda>s. snd (get_robot_box False s)) ^^ n) s) = is_robot_box_fresh s"
  by (induction n) (simp_all add: get_robot_box_fresh)

lemma get_object_box_repeated:
  "is_object_box_fresh (((\<lambda>s. snd (get_object_box False s)) ^^ n) s) = is_object_box_fresh s"
  by (induction n) (simp_all add: get_object_box_fresh)

lemma step_robot_fresh_cleared:
  assumes "step c s = Inr s'" and "is_robot_box_fresh s" and "\<not> is_robot_box_fresh s'"
  shows "c = Get_robot_box True"
  using assms
  by (cases c) (auto simp: box_defs is_robot_box_fresh_def split: option.splits)

lemma step_object_fresh_cleared:
  assumes "step c s = Inr s'" and "is_object_box_fresh s" and "\<not> is_object_box_fresh s'"
  shows "c = Get_object_box True"
  using assms
  by (cases c) (auto simp: box_defs is_object_box_fresh_def split: option.splits)

lemma step_robot_fresh_set:
  assumes "step c s = Inr s'" and "\<not> is_robot_box_fresh s" and "is_robot_box_fresh s'"
  shows "\<exists>r. c = Acquire_robot_box r"
  using assms
  by (cases c) (auto simp: box_defs is_robot_box_fresh_def split: option.splits)

lemma step_object_fresh_set:
  assumes "step c s = Inr s'" and "\<not> is_object_box_fresh s" and "is_object_box_fresh s'"
  shows "\<exists>r. c = Acquire_object_box r"
  using assms
  by (cases c) (auto simp: box_defs is_object_box_fresh_def split: option.splits)

text \<open>
  C4. After a call of \<^verbatim>\<open>acquire_robot_box\<close> that returns (the label is attached, and
  then the call does return), \<^verbatim>\<open>is_robot_box_fresh\<close> is true, and after a following
  \<^verbatim>\<open>get_robot_box(true)\<close> it is false. A read leaves the flag at
  \<open>fresh \<and> \<not> consume\<close>: it never sets it, and any number of \<^verbatim>\<open>get_robot_box(false)\<close>
  calls leave it as it was. Among all calls, the only one that takes the flag from true to
  false is \<^verbatim>\<open>get_robot_box(true)\<close>. The same holds for the object box.
\<close>

theorem box_freshness:
  "(m_robot_loc_label s \<noteq> None \<longrightarrow> (\<exists>s'. acquire_robot_box r s = Inr s'))
   \<and> (acquire_robot_box r s = Inr s1 \<longrightarrow>
        is_robot_box_fresh s1 \<and> \<not> is_robot_box_fresh (snd (get_robot_box True s1)))
   \<and> is_robot_box_fresh (snd (get_robot_box consume s)) = (is_robot_box_fresh s \<and> \<not> consume)
   \<and> is_robot_box_fresh (((\<lambda>s. snd (get_robot_box False s)) ^^ n) s) = is_robot_box_fresh s
   \<and> (step c s = Inr s2 \<and> is_robot_box_fresh s \<and> \<not> is_robot_box_fresh s2 \<longrightarrow>
        c = Get_robot_box True)
   \<and> (m_object_loc_label s \<noteq> None \<longrightarrow> (\<exists>s'. acquire_object_box r s = Inr s'))
   \<and> (acquire_object_box r s = Inr s3 \<longrightarrow>
        is_object_box_fresh s3 \<and> \<not> is_object_box_fresh (snd (get_object_box True s3)))
   \<and> is_object_box_fresh (snd (get_object_box consume s)) = (is_object_box_fresh s \<and> \<not> consume)
   \<and> is_object_box_fresh (((\<lambda>s. snd (get_object_box False s)) ^^ n) s) = is_object_box_fresh s
   \<and> (step c s = Inr s4 \<and> is_object_box_fresh s \<and> \<not> is_object_box_fresh s4 \<longrightarrow>
        c = Get_object_box True)"
proof -
  have robot_acquire:
    "acquire_robot_box r s = Inr s1 \<longrightarrow>
       is_robot_box_fresh s1 \<and> \<not> is_robot_box_fresh (snd (get_robot_box True s1))"
    by (simp add: acquire_robot_box_fresh get_robot_box_fresh)
  have object_acquire:
    "acquire_object_box r s = Inr s3 \<longrightarrow>
       is_object_box_fresh s3 \<and> \<not> is_object_box_fresh (snd (get_object_box True s3))"
    by (simp add: acquire_object_box_fresh get_object_box_fresh)
  have robot_step:
    "step c s = Inr s2 \<and> is_robot_box_fresh s \<and> \<not> is_robot_box_fresh s2 \<longrightarrow>
       c = Get_robot_box True"
    using step_robot_fresh_cleared by blast
  have object_step:
    "step c s = Inr s4 \<and> is_object_box_fresh s \<and> \<not> is_object_box_fresh s4 \<longrightarrow>
       c = Get_object_box True"
    using step_object_fresh_cleared by blast
  show ?thesis
    using robot_acquire object_acquire robot_step object_step
      acquire_robot_box_total [of s r] acquire_object_box_total [of s r]
    by (simp add: get_robot_box_repeated get_object_box_repeated
        get_robot_box_fresh get_object_box_fresh)
qed

theorem box_freshness_witness:
  "\<exists>s1 s2 s3 s4.
     acquire_robot_box \<lparr>rect_x = 1, rect_y = 2, rect_width = 10, rect_height = 10\<rparr>
       (CompetitionState True 0 False False) = Inr s1
     \<and> is_robot_box_fresh s1
     \<and> step (Get_robot_box True) s1 = Inr s2 \<and> \<not> is_robot_box_fresh s2
     \<and> acquire_object_box \<lparr>rect_x = 1, rect_y = 2, rect_width = 10, rect_height = 10\<rparr>
       (CompetitionState True 0 False False) = Inr s3
     \<and> is_object_box_fresh s3
     \<and> step (Get_object_box True) s3 = Inr s4 \<and> \<not> is_object_box_fresh s4"
proof -
  let ?S = "CompetitionState True 0 False False"
  let ?R = "\<lparr>rect_x = 1, rect_y = 2, rect_width = 10, rect_height = 10\<rparr>"
  note at_start = box_freshness [of ?S ?R]
  have "m_robot_loc_label ?S \<noteq> None"
    by (simp add: CompetitionState_def)
  with at_start [THEN conjunct1] obtain s1 where s1: "acquire_robot_box ?R ?S = Inr s1"
    by auto
  have "m_object_loc_label ?S \<noteq> None"
    by (simp add: CompetitionState_def)
  with at_start [THEN conjunct2, THEN conjunct2, THEN conjunct2, THEN conjunct2,
      THEN conjunct2, THEN conjunct1]
  obtain s3 where s3: "acquire_object_box ?R ?S = Inr s3"
    by auto
  note acquired = box_freshness [of ?S ?R s1 _ _ _ _ s3]
  have robot: "is_robot_box_fresh s1 \<and> \<not> is_robot_box_fresh (snd (get_robot_box True s1))"
    using acquired [THEN conjunct2, THEN conjunct1] s1 by simp
  have object: "is_object_box_fresh s3 \<and> \<not> is_object_box_fresh (snd (get_object_box True s3))"
    using acquired [THEN conjunct2, THEN conjunct2, THEN conjunct2, THEN conjunct2,
      THEN conjunct2, THEN conjunct2, THEN conjunct1] s3 by simp
  show ?thesis using s1 s3 robot object by simp
qed

subsection \<open>Validity of the stored boxes\<close>

text \<open>
  C5. \<^verbatim>\<open>is_robot_box_valid\<close> is true if and only if the score of the stored robot
  rectangle against \<^verbatim>\<open>robot_calib_area\<close> is strictly below \<^verbatim>\<open>area_acq_r_sigma\<close>,
  whatever the rectangle and the two calibration values are; the stored rectangle is the
  one \<^verbatim>\<open>get_robot_box\<close> returns and the one the last \<^verbatim>\<open>acquire_robot_box\<close> stored.
  Likewise for the object box with \<^verbatim>\<open>object_calib_area\<close>.
\<close>

theorem box_valid_iff_score_below_sigma:
  "is_robot_box_valid \<lparr>robot_calib_area = ra, object_calib_area = oa, area_acq_r_sigma = sigma\<rparr> s
     = (acquisition_r (fst (get_robot_box consume s)) ra < sigma)
   \<and> is_object_box_valid \<lparr>robot_calib_area = ra, object_calib_area = oa, area_acq_r_sigma = sigma\<rparr> s
     = (acquisition_r (fst (get_object_box consume s)) oa < sigma)
   \<and> (acquire_robot_box r s = Inr s1 \<longrightarrow>
        is_robot_box_valid
          \<lparr>robot_calib_area = ra, object_calib_area = oa, area_acq_r_sigma = sigma\<rparr> s1
        = (acquisition_r r ra < sigma))
   \<and> (acquire_object_box r s = Inr s2 \<longrightarrow>
        is_object_box_valid
          \<lparr>robot_calib_area = ra, object_calib_area = oa, area_acq_r_sigma = sigma\<rparr> s2
        = (acquisition_r r oa < sigma))"
  by (auto simp: is_robot_box_valid_def is_object_box_valid_def get_robot_box_def
      get_object_box_def acquire_robot_box_def acquire_object_box_def split: option.splits)

theorem box_valid_iff_score_below_sigma_witness:
  "\<exists>s1 s2.
     acquire_robot_box \<lparr>rect_x = 0, rect_y = 0, rect_width = 10, rect_height = 10\<rparr>
       (CompetitionState True 0 False False) = Inr s1
     \<and> is_robot_box_valid
         \<lparr>robot_calib_area = 100, object_calib_area = 50, area_acq_r_sigma = 1 / 2\<rparr> s1
     \<and> acquire_object_box \<lparr>rect_x = 0, rect_y = 0, rect_width = 10, rect_height = 10\<rparr>
       (CompetitionState True 0 False False) = Inr s2
     \<and> \<not> is_object_box_valid
         \<lparr>robot_calib_area = 100, object_calib_area = 50, area_acq_r_sigma = 1 / 2\<rparr> s2"
proof -
  let ?S = "CompetitionState True 0 False False"
  let ?R = "\<lparr>rect_x = 0, rect_y = 0, rect_width = 10, rect_height = 10\<rparr>"
  obtain s1 where s1: "acquire_robot_box ?R ?S = Inr s1"
    by (simp add: acquire_robot_box_def CompetitionState_def)
  obtain s2 where s2: "acquire_object_box ?R ?S = Inr s2"
    by (simp add: acquire_object_box_def CompetitionState_def)
  have score: "acquisition_r ?R 100 = 0" "acquisition_r ?R 50 = 1 / 2"
    by (simp_all add: acquisition_r_def rect_area_def side_ratio_def)
  note inst = box_valid_iff_score_below_sigma
    [where ra = 100 and oa = 50 and sigma = "1 / 2" and r = ?R and s = ?S and ?s1.0 = s1
      and ?s2.0 = s2]
  have "is_robot_box_valid
         \<lparr>robot_calib_area = 100, object_calib_area = 50, area_acq_r_sigma = 1 / 2\<rparr> s1"
    using inst [THEN conjunct2, THEN conjunct2, THEN conjunct1] s1 score by simp
  moreover have "\<not> is_object_box_valid
         \<lparr>robot_calib_area = 100, object_calib_area = 50, area_acq_r_sigma = 1 / 2\<rparr> s2"
    using inst [THEN conjunct2, THEN conjunct2, THEN conjunct2] s2 score by simp
  ultimately show ?thesis using s1 s2 by simp
qed

subsection \<open>The tracking flags\<close>

lemma step_tracking_object:
  "step c s = Inr s' \<Longrightarrow>
     m_tracking_object s' = last_set_tracking_object (m_tracking_object s) [c]"
  by (cases c) (auto simp: box_defs split: option.splits)

lemma last_set_tracking_object_Cons:
  "last_set_tracking_object b (c # cs)
     = last_set_tracking_object (last_set_tracking_object b [c]) cs"
  by (cases c) simp_all

lemma run_tracking_object:
  "run cs s = Inr s' \<Longrightarrow>
     m_tracking_object s' = last_set_tracking_object (m_tracking_object s) cs"
proof (induction cs arbitrary: s)
  case Nil
  then show ?case by simp
next
  case (Cons c cs)
  from Cons.prems obtain s1 where
    first: "step c s = Inr s1" and rest: "run cs s1 = Inr s'"
    by (auto split: sum.splits)
  from Cons.IH [OF rest] step_tracking_object [OF first] show ?case
    by (simp add: last_set_tracking_object_Cons [of _ c cs])
qed

text \<open>
  C6. \<^verbatim>\<open>is_tracking_robot\<close> returns the object-tracking flag: in the state reached by any
  sequence of calls it is the argument of the last \<^verbatim>\<open>set_tracking_object\<close> call (the
  initial value of the flag when there was none), and \<^verbatim>\<open>set_tracking_robot\<close> does not
  change its result.
\<close>

theorem is_tracking_robot_reads_object_flag:
  "is_tracking_robot s = m_tracking_object s
   \<and> is_tracking_robot s = is_tracking_object s
   \<and> is_tracking_robot (set_tracking_object b s) = b
   \<and> is_tracking_robot (set_tracking_robot b s) = is_tracking_robot s
   \<and> (run cs s = Inr s' \<longrightarrow>
        is_tracking_robot s' = last_set_tracking_object (m_tracking_object s) cs)"
  using run_tracking_object [of cs s s']
  by (simp add: is_tracking_robot_def is_tracking_object_def set_tracking_object_def
      set_tracking_robot_def)

theorem is_tracking_robot_reads_object_flag_witness:
  "\<exists>s'. run [Set_tracking_object True, Set_tracking_robot False]
            (CompetitionState True 0 False False) = Inr s'
         \<and> is_tracking_robot s'
         \<and> \<not> m_tracking_robot s'"
proof -
  let ?S = "CompetitionState True 0 False False"
  let ?cs = "[Set_tracking_object True, Set_tracking_robot False]"
  have r: "run ?cs ?S = Inr (set_tracking_robot False (set_tracking_object True ?S))"
    by simp
  from is_tracking_robot_reads_object_flag
    [where cs = ?cs and s = ?S and s' = "set_tracking_robot False (set_tracking_object True ?S)",
      THEN conjunct2, THEN conjunct2, THEN conjunct2, THEN conjunct2] r
  have "is_tracking_robot (set_tracking_robot False (set_tracking_object True ?S))"
    by simp
  with r show ?thesis
    by (simp add: set_tracking_robot_def)
qed

subsection \<open>The path\<close>

lemma run_append_path:
  "run (map (\<lambda>p. Append_path (fst p) (snd p)) pts) s
     = Inr (s\<lparr>m_path := m_path s @ pts\<rparr>)"
proof (induction pts arbitrary: s)
  case Nil
  show ?case by simp
next
  case (Cons p pts)
  show ?case
    by (simp add: Cons.IH append_path_def)
qed

text \<open>
  C7. \<^verbatim>\<open>clear_path\<close> followed by \<^verbatim>\<open>get_path\<close> gives the empty sequence; and after a
  \<^verbatim>\<open>clear_path\<close> and \<open>N\<close> calls \<^verbatim>\<open>append_path(x, y)\<close>, for the \<open>N\<close> points of any
  list \<open>pts\<close>, \<^verbatim>\<open>get_path\<close> gives exactly these \<open>N\<close> points in the order of the calls.
\<close>

theorem path_after_clear_and_appends:
  "get_path (clear_path s) = []
   \<and> (\<exists>s'. run (Clear_path # map (\<lambda>p. Append_path (fst p) (snd p)) pts) s = Inr s'
          \<and> get_path s' = pts
          \<and> length (get_path s') = length pts)"
  by (simp add: run_append_path get_path_def clear_path_def)

subsection \<open>The target box\<close>

text \<open>
  C8. \<^verbatim>\<open>acquire_target_box\<close> stores the rectangle as the target box and changes nothing
  else: the robot and object boxes, both freshness flags, the path, the tracking flags, and
  also the two labels (no display update), the object type, the walls and the two
  procedure slots are as before.
\<close>

theorem acquire_target_box_frame:
  "get_target_box (acquire_target_box r s) = r
   \<and> box_robot (acquire_target_box r s) = box_robot s
   \<and> box_object (acquire_target_box r s) = box_object s
   \<and> m_robot_box_fresh (acquire_target_box r s) = m_robot_box_fresh s
   \<and> m_object_box_fresh (acquire_target_box r s) = m_object_box_fresh s
   \<and> m_path (acquire_target_box r s) = m_path s
   \<and> m_tracking_robot (acquire_target_box r s) = m_tracking_robot s
   \<and> m_tracking_object (acquire_target_box r s) = m_tracking_object s
   \<and> m_acquire_walls (acquire_target_box r s) = m_acquire_walls s
   \<and> m_robot_loc_label (acquire_target_box r s) = m_robot_loc_label s
   \<and> m_object_loc_label (acquire_target_box r s) = m_object_loc_label s
   \<and> m_object_type (acquire_target_box r s) = m_object_type s
   \<and> m_walls (acquire_target_box r s) = m_walls s
   \<and> m_procedure (acquire_target_box r s) = m_procedure s
   \<and> m_object_procedure (acquire_target_box r s) = m_object_procedure s"
  by (simp add: acquire_target_box_def get_target_box_def)

subsection \<open>The procedure slots\<close>

lemma step_procedure_slot:
  "step c s = Inr s' \<Longrightarrow>
     (m_procedure s' \<noteq> None) = (m_procedure s \<noteq> None \<or> c = Begin_traversal)"
  by (cases c) (auto simp: box_defs split: option.splits)

lemma step_object_procedure_slot:
  "step c s = Inr s' \<Longrightarrow>
     (m_object_procedure s' \<noteq> None) = (m_object_procedure s \<noteq> None \<or> c = Begin_object_move)"
  by (cases c) (auto simp: box_defs split: option.splits)

lemma run_procedure_slot:
  "run cs s = Inr s' \<Longrightarrow>
     (m_procedure s' \<noteq> None) = (m_procedure s \<noteq> None \<or> Begin_traversal \<in> set cs)"
proof (induction cs arbitrary: s)
  case Nil
  then show ?case by simp
next
  case (Cons c cs)
  from Cons.prems obtain s1 where
    first: "step c s = Inr s1" and rest: "run cs s1 = Inr s'"
    by (auto split: sum.splits)
  from Cons.IH [OF rest] step_procedure_slot [OF first] show ?case
    by auto
qed

lemma run_object_procedure_slot:
  "run cs s = Inr s' \<Longrightarrow>
     (m_object_procedure s' \<noteq> None)
       = (m_object_procedure s \<noteq> None \<or> Begin_object_move \<in> set cs)"
proof (induction cs arbitrary: s)
  case Nil
  then show ?case by simp
next
  case (Cons c cs)
  from Cons.prems obtain s1 where
    first: "step c s = Inr s1" and rest: "run cs s1 = Inr s'"
    by (auto split: sum.splits)
  from Cons.IH [OF rest] step_object_procedure_slot [OF first] show ?case
    by auto
qed

lemma halt_traversal_slot:
  "(halt_traversal s = Inl Procedure_null) = (m_procedure s = None)"
  "(\<exists>s'. halt_traversal s = Inr s') = (m_procedure s \<noteq> None)"
  by (auto simp: halt_traversal_def split: option.splits)

lemma halt_object_move_slot:
  "(halt_object_move s = Inl Procedure_null) = (m_object_procedure s = None)"
  "(\<exists>s'. halt_object_move s = Inr s') = (m_object_procedure s \<noteq> None)"
  by (auto simp: halt_object_move_def split: option.splits)

text \<open>
  C9. With the procedure slot an option: in the state reached by a sequence of calls
  that contains \<^verbatim>\<open>begin_traversal\<close>, \<^verbatim>\<open>halt_traversal\<close> returns normally, from whatever
  state the sequence started; in the state reached from a newly constructed object by a
  sequence without \<^verbatim>\<open>begin_traversal\<close> the slot is empty and \<^verbatim>\<open>halt_traversal\<close> fails
  on it. The same holds for \<^verbatim>\<open>begin_object_move\<close> and \<^verbatim>\<open>halt_object_move\<close>.
\<close>

theorem halt_needs_begin:
  "(run cs s = Inr s' \<and> Begin_traversal \<in> set cs \<longrightarrow>
      (\<exists>s''. halt_traversal s' = Inr s'') \<and> halt_traversal s' \<noteq> Inl Procedure_null)
   \<and> (run cs (CompetitionState locked unacquired fr fo) = Inr s' \<and> Begin_traversal \<notin> set cs \<longrightarrow>
        m_procedure s' = None \<and> halt_traversal s' = Inl Procedure_null)
   \<and> (run cs s = Inr s' \<and> Begin_object_move \<in> set cs \<longrightarrow>
        (\<exists>s''. halt_object_move s' = Inr s'') \<and> halt_object_move s' \<noteq> Inl Procedure_null)
   \<and> (run cs (CompetitionState locked unacquired fr fo) = Inr s' \<and> Begin_object_move \<notin> set cs \<longrightarrow>
        m_object_procedure s' = None \<and> halt_object_move s' = Inl Procedure_null)"
proof -
  have new: "m_procedure (CompetitionState locked unacquired fr fo) = None"
    "m_object_procedure (CompetitionState locked unacquired fr fo) = None"
    by (simp_all add: CompetitionState_def)
  have "halt_traversal s' \<noteq> Inl Procedure_null \<and> (\<exists>s''. halt_traversal s' = Inr s'')"
    if "run cs s = Inr s'" "Begin_traversal \<in> set cs"
    using run_procedure_slot [OF that(1)] that(2) by (simp add: halt_traversal_slot)
  moreover have "m_procedure s' = None \<and> halt_traversal s' = Inl Procedure_null"
    if "run cs (CompetitionState locked unacquired fr fo) = Inr s'" "Begin_traversal \<notin> set cs"
    using run_procedure_slot [OF that(1)] that(2) new by (simp add: halt_traversal_slot)
  moreover have "halt_object_move s' \<noteq> Inl Procedure_null \<and> (\<exists>s''. halt_object_move s' = Inr s'')"
    if "run cs s = Inr s'" "Begin_object_move \<in> set cs"
    using run_object_procedure_slot [OF that(1)] that(2) by (simp add: halt_object_move_slot)
  moreover have "m_object_procedure s' = None \<and> halt_object_move s' = Inl Procedure_null"
    if "run cs (CompetitionState locked unacquired fr fo) = Inr s'" "Begin_object_move \<notin> set cs"
    using run_object_procedure_slot [OF that(1)] that(2) new
    by (simp add: halt_object_move_slot)
  ultimately show ?thesis by blast
qed

theorem halt_needs_begin_witness:
  "(\<exists>s'. run [Append_path 1 2, Begin_traversal, Clear_path, Begin_object_move]
            (CompetitionState True 0 False False) = Inr s'
          \<and> (\<exists>s''. halt_traversal s' = Inr s'')
          \<and> (\<exists>s''. halt_object_move s' = Inr s''))
   \<and> (\<exists>s'. run [Append_path 1 2, Clear_path] (CompetitionState True 0 False False) = Inr s'
          \<and> halt_traversal s' = Inl Procedure_null
          \<and> halt_object_move s' = Inl Procedure_null)"
proof -
  let ?S = "CompetitionState True 0 False False"
  let ?cs = "[Append_path 1 2, Begin_traversal, Clear_path, Begin_object_move]"
  let ?ds = "[Append_path 1 2, Clear_path]"
  obtain s1 where s1: "run ?cs ?S = Inr s1"
    by simp
  obtain s2 where s2: "run ?ds ?S = Inr s2"
    by simp
  note begun = halt_needs_begin [where cs = ?cs and s = ?S and s' = s1]
  note fresh = halt_needs_begin
    [where cs = ?ds and s' = s2 and locked = True and unacquired = 0 and fr = False
      and fo = False]
  have "\<exists>s''. halt_traversal s1 = Inr s''"
    using begun [THEN conjunct1] s1 by simp
  moreover have "\<exists>s''. halt_object_move s1 = Inr s''"
    using begun [THEN conjunct2, THEN conjunct2, THEN conjunct1] s1 by simp
  moreover have "halt_traversal s2 = Inl Procedure_null"
    using fresh [THEN conjunct2, THEN conjunct1] s2 by simp
  moreover have "halt_object_move s2 = Inl Procedure_null"
    using fresh [THEN conjunct2, THEN conjunct2, THEN conjunct2] s2 by simp
  ultimately show ?thesis using s1 s2 by simp
qed

end
